theory Spec2Isabelle
  imports Main "HOL-Library.Word"
begin

section \<open>The declarations of the grammar entry point\<close>

text \<open>
  The repository holds two declarations of the C entry point of the generated grammar.
  The Swift target's header \<^verbatim>\<open>ifs_cloud_parser.h\<close> has
  \<^verbatim>\<open>typedef struct TSLanguage TSLanguage;\<close> and, inside an \<^verbatim>\<open>extern "C"\<close> block
  when read as C++ (and as plain C otherwise),
  \<^verbatim>\<open>const TSLanguage *tree_sitter_ifs_cloud_parser(void);\<close>
  The Python binding \<^verbatim>\<open>binding.cc\<close> has
  \<^verbatim>\<open>extern "C" TSLanguage *tree_sitter_ifs_cloud_parser();\<close>
  A declaration is modelled as data: its name, its language linkage, its return type and
  the list of its parameter types. Both \<^verbatim>\<open>(void)\<close> in the header and \<^verbatim>\<open>()\<close> in the
  C++ file declare a function of no parameters.
\<close>

datatype c_type = StructT string | ConstT c_type | PointerT c_type

datatype linkage = C_linkage | Cxx_linkage

record fun_decl =
  decl_name :: string
  decl_linkage :: linkage
  decl_return :: c_type
  decl_params :: "c_type list"

text \<open>\<^verbatim>\<open>typedef struct TSLanguage TSLanguage;\<close>\<close>

definition TSLanguage :: c_type where
  "TSLanguage = StructT ''TSLanguage''"

text \<open>The declaration in \<^verbatim>\<open>bindings/swift/TreeSitterIfsCloudParser/ifs_cloud_parser.h\<close>.\<close>

definition swift_header_decl :: fun_decl where
  "swift_header_decl =
     \<lparr>decl_name = ''tree_sitter_ifs_cloud_parser'',
      decl_linkage = C_linkage,
      decl_return = PointerT (ConstT TSLanguage),
      decl_params = []\<rparr>"

text \<open>The declaration in \<^verbatim>\<open>bindings/python/binding.cc\<close>.\<close>

definition python_binding_decl :: fun_decl where
  "python_binding_decl =
     \<lparr>decl_name = ''tree_sitter_ifs_cloud_parser'',
      decl_linkage = C_linkage,
      decl_return = PointerT TSLanguage,
      decl_params = []\<rparr>"

text \<open>
  Two declarations name the same entry point with the same function type when the name,
  the argument list and the return type agree. This follows the wording of the
  specification, to be compared with the two declarations of the source.
\<close>

definition same_name_and_function_type :: "fun_decl \<Rightarrow> fun_decl \<Rightarrow> bool" where
  "same_name_and_function_type d e =
     (decl_name d = decl_name e \<and> decl_params d = decl_params e \<and> decl_return d = decl_return e)"

text \<open>A type with every \<^verbatim>\<open>const\<close> qualifier removed.\<close>

fun unqualified :: "c_type \<Rightarrow> c_type" where
  "unqualified (StructT n) = StructT n"
| "unqualified (ConstT t) = unqualified t"
| "unqualified (PointerT t) = PointerT (unqualified t)"

text \<open>
  The symbol the linker resolves a declaration to. With C linkage the name is not
  mangled: the symbol is the name, whatever the types are. The mangled names of C++
  linkage are not modelled.
\<close>

definition linker_symbol :: "fun_decl \<Rightarrow> string option" where
  "linker_symbol d = (case decl_linkage d of C_linkage \<Rightarrow> Some (decl_name d) | Cxx_linkage \<Rightarrow> None)"


section \<open>The Python module\<close>

text \<open>
  \<^verbatim>\<open>binding.cc\<close> defines the extension module \<^verbatim>\<open>ifs_cloud_parser\<close>. Its body uses two
  functions defined elsewhere: the grammar entry point \<^verbatim>\<open>tree_sitter_ifs_cloud_parser\<close>
  (the generated grammar) and \<^verbatim>\<open>tree_sitter_language_version\<close> (the parsing library).
  Neither body is part of the binding, so both are parameters of the model. They are C
  functions: each is run in a state of the process (\<open>'w\<close>) and returns its result with
  the state it leaves. The handle (\<open>'h\<close>) is the pointer to the grammar table; the
  version is a \<^verbatim>\<open>uint32_t\<close>.
\<close>

record ('h, 'w) externs =
  tree_sitter_ifs_cloud_parser :: "'w \<Rightarrow> 'h \<times> 'w"
  tree_sitter_language_version :: "'h \<Rightarrow> 'w \<Rightarrow> 32 word \<times> 'w"

text \<open>
  The values of the interpreter that the binding deals with: strings, integers, C
  functions of no argument registered with a documentation string, and instances of a
  bound C++ class, which hold a pointer to the C++ object. A module has a name, its
  attributes, and the C++ classes its body binds with \<^verbatim>\<open>py::class_\<close>.
\<close>

datatype ('h, 'w) py_value =
    PyStr string
  | PyInt int
  | PyCFunction "'w \<Rightarrow> 'h \<times> 'w" string
  | PyInstance string 'h

record ('h, 'w) py_module =
  mod_name :: string
  mod_dict :: "string \<rightharpoonup> ('h, 'w) py_value"
  mod_classes :: "string list"

text \<open>\<^verbatim>\<open>m.doc() = s\<close>, \<^verbatim>\<open>m.def(name, f, doc)\<close> and \<^verbatim>\<open>m.attr(name) = v\<close>.\<close>

definition set_doc :: "('h, 'w) py_module \<Rightarrow> string \<Rightarrow> ('h, 'w) py_module" where
  "set_doc m s = m\<lparr>mod_dict := (mod_dict m)(''__doc__'' \<mapsto> PyStr s)\<rparr>"

definition def :: "('h, 'w) py_module \<Rightarrow> string \<Rightarrow> ('w \<Rightarrow> 'h \<times> 'w) \<Rightarrow> string \<Rightarrow> ('h, 'w) py_module" where
  "def m name f doc = m\<lparr>mod_dict := (mod_dict m)(name \<mapsto> PyCFunction f doc)\<rparr>"

definition set_attr :: "('h, 'w) py_module \<Rightarrow> string \<Rightarrow> ('h, 'w) py_value \<Rightarrow> ('h, 'w) py_module" where
  "set_attr m name v = m\<lparr>mod_dict := (mod_dict m)(name \<mapsto> v)\<rparr>"

text \<open>\<^verbatim>\<open>py::cast\<close> of a \<^verbatim>\<open>uint32_t\<close>: the Python integer of the same unsigned value.\<close>

definition py_cast :: "32 word \<Rightarrow> ('h, 'w) py_value" where
  "py_cast v = PyInt (uint v)"

text \<open>
  The body of \<^verbatim>\<open>PYBIND11_MODULE(ifs_cloud_parser, m)\<close>, run once when the module is
  imported, in the state \<open>w0\<close> of the process. The statements only touch the module,
  except for the last one, which calls the entry point and then the version function on
  the handle it returned. No statement of the body binds a class: \<open>mod_classes\<close> stays
  empty.
\<close>

definition module_init :: "('h, 'w) externs \<Rightarrow> 'w \<Rightarrow> ('h, 'w) py_module \<times> 'w" where
  "module_init ext w0 =
     (let m0 = \<lparr>mod_name = ''ifs_cloud_parser'', mod_dict = Map.empty, mod_classes = []\<rparr>;
          m1 = set_doc m0 ''IFS Cloud PL/SQL Tree-sitter parser'';
          m2 = def m1 ''language'' (tree_sitter_ifs_cloud_parser ext)
                 ''Get the Tree-sitter Language object for IFS Cloud PL/SQL'';
          m3 = set_attr m2 ''__version__'' (PyStr ''0.2.0'');
          (h, w1) = tree_sitter_ifs_cloud_parser ext w0;
          (v, w2) = tree_sitter_language_version ext h w1;
          m4 = set_attr m3 ''LANGUAGE_VERSION'' (py_cast v)
      in (m4, w2))"


section \<open>What the host does with the module\<close>

text \<open>
  The host reads an attribute of the module, or calls one. A name the module does not
  have is an \<^verbatim>\<open>AttributeError\<close>; calling a string, an integer or an instance is a
  \<^verbatim>\<open>TypeError\<close>.
\<close>

datatype py_error = AttributeError | TypeError

definition getattr :: "('h, 'w) py_module \<Rightarrow> string \<Rightarrow> ('h, 'w) py_value option" where
  "getattr m name = mod_dict m name"

text \<open>
  A call of a function registered with \<^verbatim>\<open>m.def\<close> goes through the wrapper that
  \<^verbatim>\<open>m.def\<close> builds around the C function. The wrapper first invokes the C function in
  the current state of the process; the module is not an argument of that function and
  stays as it is.
\<close>

definition invoke :: "string \<Rightarrow> ('h, 'w) py_module \<times> 'w \<Rightarrow> py_error + 'h \<times> ('h, 'w) py_module \<times> 'w" where
  "invoke name s =
     (case getattr (fst s) name of
        None \<Rightarrow> Inl AttributeError
      | Some (PyStr x) \<Rightarrow> Inl TypeError
      | Some (PyInt i) \<Rightarrow> Inl TypeError
      | Some (PyInstance c p) \<Rightarrow> Inl TypeError
      | Some (PyCFunction f doc) \<Rightarrow>
          (case f (snd s) of (h, w') \<Rightarrow> Inr (h, fst s, w')))"

text \<open>
  The wrapper then converts what the C function returned into a value of the
  interpreter. The functions registered here return a \<^verbatim>\<open>TSLanguage *\<close>, a pointer to a
  C++ class type. Such a pointer becomes an instance of the class when the class has been
  bound with \<^verbatim>\<open>py::class_\<close>; for a class that has not been bound the conversion fails
  and the call raises \<^verbatim>\<open>TypeError\<close>. (A null pointer to a bound class would become
  \<^verbatim>\<open>None\<close>; the model does not tell null handles from others.)
\<close>

definition cast_class_pointer :: "string list \<Rightarrow> string \<Rightarrow> 'h \<Rightarrow> py_error + ('h, 'w) py_value" where
  "cast_class_pointer bound cls h =
     (if cls \<in> set bound then Inr (PyInstance cls h) else Inl TypeError)"

text \<open>
  What a call that ran its C function gives the host: a value, or an exception. Either
  way the C function has run, and the process is in the state it left.
\<close>

datatype ('h, 'w) outcome = Returned "('h, 'w) py_value" | Raised py_error

definition call ::
  "string \<Rightarrow> ('h, 'w) py_module \<times> 'w \<Rightarrow> py_error + ('h, 'w) outcome \<times> ('h, 'w) py_module \<times> 'w" where
  "call name s =
     (case invoke name s of
        Inl e \<Rightarrow> Inl e
      | Inr (h, s') \<Rightarrow>
          Inr (case cast_class_pointer (mod_classes (fst s')) ''TSLanguage'' h of
                 Inl e \<Rightarrow> Raised e
               | Inr v \<Rightarrow> Returned v,
               s'))"

text \<open>The exposed operation: \<^verbatim>\<open>ifs_cloud_parser.language()\<close>.\<close>

definition language ::
  "('h, 'w) py_module \<times> 'w \<Rightarrow> py_error + ('h, 'w) outcome \<times> ('h, 'w) py_module \<times> 'w" where
  "language s = call ''language'' s"

text \<open>
  The host calls \<^verbatim>\<open>language()\<close> \<open>n\<close> times in a row and goes on whatever a call
  returns or raises; it stops only when there is no function to call.
\<close>

fun language_calls :: "nat \<Rightarrow> ('h, 'w) py_module \<times> 'w \<Rightarrow> py_error + ('h, 'w) py_module \<times> 'w" where
  "language_calls 0 s = Inr s"
| "language_calls (Suc n) s =
     (case language s of Inl e \<Rightarrow> Inl e | Inr (r, s') \<Rightarrow> language_calls n s')"



text \<open>
  What the host reads from attribute \<open>name\<close> after it has called \<^verbatim>\<open>language()\<close>
  \<open>n\<close> times.
\<close>

definition read_after_calls ::
  "nat \<Rightarrow> string \<Rightarrow> ('h, 'w) py_module \<times> 'w \<Rightarrow> py_error + ('h, 'w) py_value option" where
  "read_after_calls n name s =
     (case language_calls n s of Inl e \<Rightarrow> Inl e | Inr (m, w) \<Rightarrow> Inr (getattr m name))"

text \<open>
  An example process to run the model on. Its state counts the calls of the entry point
  and the calls of the version function; the grammar table sits at address 4096 and has
  version 14.
\<close>

definition counting_externs :: "(nat, nat \<times> nat) externs" where
  "counting_externs =
     \<lparr>tree_sitter_ifs_cloud_parser = (\<lambda>(a, b). (4096, (Suc a, b))),
      tree_sitter_language_version = (\<lambda>h (a, b). (if h = 4096 then 14 else 0, (a, Suc b)))\<rparr>"


section \<open>The initialised module\<close>

lemma module_init_dict:
  "mod_dict (fst (module_init ext w0)) =
     [''__doc__'' \<mapsto> PyStr ''IFS Cloud PL/SQL Tree-sitter parser'',
      ''language'' \<mapsto> PyCFunction (tree_sitter_ifs_cloud_parser ext)
         ''Get the Tree-sitter Language object for IFS Cloud PL/SQL'',
      ''__version__'' \<mapsto> PyStr ''0.2.0'',
      ''LANGUAGE_VERSION'' \<mapsto>
         py_cast (fst (tree_sitter_language_version ext
           (fst (tree_sitter_ifs_cloud_parser ext w0))
           (snd (tree_sitter_ifs_cloud_parser ext w0))))]"
  by (simp add: module_init_def set_doc_def def_def set_attr_def Let_def split: prod.split)

lemma getattr_language:
  "getattr (fst (module_init ext w0)) ''language'' =
     Some (PyCFunction (tree_sitter_ifs_cloud_parser ext)
       ''Get the Tree-sitter Language object for IFS Cloud PL/SQL'')"
  by (simp add: getattr_def module_init_dict)

lemma module_init_classes:
  "mod_classes (fst (module_init ext w0)) = []"
  by (simp add: module_init_def set_doc_def def_def set_attr_def Let_def split: prod.split)

lemma invoke_initialised:
  "invoke ''language'' (fst (module_init ext w0), w) =
     Inr (fst (tree_sitter_ifs_cloud_parser ext w),
          fst (module_init ext w0),
          snd (tree_sitter_ifs_cloud_parser ext w))"
  by (simp add: invoke_def getattr_language split: prod.split)

lemma language_initialised:
  "language (fst (module_init ext w0), w) =
     Inr (Raised TypeError,
          fst (module_init ext w0),
          snd (tree_sitter_ifs_cloud_parser ext w))"
  by (simp add: language_def call_def invoke_initialised cast_class_pointer_def module_init_classes)

lemma language_calls_initialised:
  "language_calls n (fst (module_init ext w0), w) =
     Inr (fst (module_init ext w0), ((\<lambda>u. snd (tree_sitter_ifs_cloud_parser ext u)) ^^ n) w)"
proof (induction n arbitrary: w)
  case 0
  show ?case by simp
next
  case (Suc n)
  have "language_calls (Suc n) (fst (module_init ext w0), w) =
          language_calls n (fst (module_init ext w0), snd (tree_sitter_ifs_cloud_parser ext w))"
    by (simp add: language_initialised)
  also have "\<dots> = Inr (fst (module_init ext w0),
      ((\<lambda>u. snd (tree_sitter_ifs_cloud_parser ext u)) ^^ n) (snd (tree_sitter_ifs_cloud_parser ext w)))"
    by (rule Suc.IH)
  finally have step: "language_calls (Suc n) (fst (module_init ext w0), w) =
      Inr (fst (module_init ext w0),
        ((\<lambda>u. snd (tree_sitter_ifs_cloud_parser ext u)) ^^ n) (snd (tree_sitter_ifs_cloud_parser ext w)))" .
  show ?case unfolding step
    using funpow_swap1 [of "\<lambda>u. snd (tree_sitter_ifs_cloud_parser ext u)" n w] by simp
qed

lemma read_after_calls_initialised:
  "read_after_calls n name (module_init ext w0) = Inr (getattr (fst (module_init ext w0)) name)"
proof -
  have "module_init ext w0 = (fst (module_init ext w0), snd (module_init ext w0))"
    by simp
  then have "language_calls n (module_init ext w0) =
      Inr (fst (module_init ext w0),
        ((\<lambda>u. snd (tree_sitter_ifs_cloud_parser ext u)) ^^ n) (snd (module_init ext w0)))"
    using language_calls_initialised [of n ext w0 "snd (module_init ext w0)"] by simp
  then show ?thesis by (simp add: read_after_calls_def)
qed

lemma module_init_state:
  "snd (module_init ext w0) =
     snd (tree_sitter_language_version ext
       (fst (tree_sitter_ifs_cloud_parser ext w0))
       (snd (tree_sitter_ifs_cloud_parser ext w0)))"
  by (simp add: module_init_def Let_def split: prod.split)

text \<open>On the example process, importing the module calls each C function once.\<close>

lemma module_init_counting:
  "snd (module_init counting_externs (0, 0)) = (1, 1)"
  "getattr (fst (module_init counting_externs (0, 0))) ''LANGUAGE_VERSION'' = Some (PyInt 14)"
  by (simp_all add: module_init_state getattr_def module_init_dict py_cast_def counting_externs_def)


text \<open>
  The two declarations agree in everything but the \<^verbatim>\<open>const\<close> qualifier of the type the
  returned pointer points to, and the linker resolves both to one symbol.
\<close>

lemma declarations_agree_up_to_const:
  "decl_name swift_header_decl = decl_name python_binding_decl \<and>
   decl_linkage swift_header_decl = C_linkage \<and>
   decl_linkage python_binding_decl = C_linkage \<and>
   decl_params swift_header_decl = [] \<and>
   decl_params python_binding_decl = [] \<and>
   decl_return swift_header_decl = PointerT (ConstT TSLanguage) \<and>
   decl_return python_binding_decl = PointerT TSLanguage \<and>
   unqualified (decl_return swift_header_decl) = unqualified (decl_return python_binding_decl)"
  by (simp add: swift_header_decl_def python_binding_decl_def TSLanguage_def)

lemma declarations_same_symbol:
  "linker_symbol swift_header_decl = Some ''tree_sitter_ifs_cloud_parser'' \<and>
   linker_symbol python_binding_decl = Some ''tree_sitter_ifs_cloud_parser''"
  by (simp add: linker_symbol_def swift_header_decl_def python_binding_decl_def)


section \<open>The claims about the binding\<close>

text \<open>
  C1. The claim is that the exposed operation \<^verbatim>\<open>language\<close> returns, at every call, the
  handle that \<^verbatim>\<open>tree_sitter_ifs_cloud_parser\<close> produces, unchanged. The binding does
  not do that. Called on the initialised module in any state of the process, the wrapper
  invokes the entry point, which returns its handle and leaves the process in its state,
  and the module stays as it was; but the handle does not reach the host: the binding
  binds no class for \<^verbatim>\<open>TSLanguage\<close>, the conversion of the returned pointer fails, and
  the call raises \<^verbatim>\<open>TypeError\<close>.
\<close>

theorem language_raises_TypeError:
  "invoke ''language'' (fst (module_init ext w0), w) =
     Inr (fst (tree_sitter_ifs_cloud_parser ext w),
          fst (module_init ext w0),
          snd (tree_sitter_ifs_cloud_parser ext w)) \<and>
   language (fst (module_init ext w0), w) =
     Inr (Raised TypeError,
          fst (module_init ext w0),
          snd (tree_sitter_ifs_cloud_parser ext w))"
  by (simp add: invoke_initialised language_initialised)

text \<open>
  C2. The claim is that the declaration in the Swift header and the one in the Python
  binding have the same name and the same function type (argument list and return type).
  The two declarations of the source do not: the header returns a pointer to
  \<^verbatim>\<open>const TSLanguage\<close>, the binding a pointer to \<^verbatim>\<open>TSLanguage\<close>.
\<close>

theorem declarations_differ:
  "\<not> same_name_and_function_type swift_header_decl python_binding_decl"
  by (simp add: same_name_and_function_type_def swift_header_decl_def python_binding_decl_def
      TSLanguage_def)



text \<open>
  C10. Importing the module fixes its metadata: \<^verbatim>\<open>__version__\<close> is the string
  \<^verbatim>\<open>0.2.0\<close>; \<^verbatim>\<open>LANGUAGE_VERSION\<close> is computed during the import by one call of
  \<^verbatim>\<open>tree_sitter_ifs_cloud_parser\<close> followed by one call of
  \<^verbatim>\<open>tree_sitter_language_version\<close> on its result, which is all the import does to the
  state of the process; and after any number \<open>n\<close> of calls of \<^verbatim>\<open>language()\<close> the host
  still reads these two values.
\<close>

theorem metadata_fixed_at_import:
  "read_after_calls n ''__version__'' (module_init ext w0) = Inr (Some (PyStr ''0.2.0'')) \<and>
   read_after_calls n ''LANGUAGE_VERSION'' (module_init ext w0) =
     Inr (Some (PyInt (uint (fst (tree_sitter_language_version ext
       (fst (tree_sitter_ifs_cloud_parser ext w0))
       (snd (tree_sitter_ifs_cloud_parser ext w0))))))) \<and>
   snd (module_init ext w0) =
     snd (tree_sitter_language_version ext
       (fst (tree_sitter_ifs_cloud_parser ext w0))
       (snd (tree_sitter_ifs_cloud_parser ext w0)))"
  by (simp add: read_after_calls_initialised getattr_def module_init_dict py_cast_def
      module_init_state [symmetric])

end
